theory Spec2Isabelle
  imports Main "HOL-Library.Word"
begin

unbundle bit_operations_syntax

section \<open>The streaming session controller of spotify.cpp\<close>

text \<open>
  A shallow embedding of class \<open>CSpotPlayer\<close> (src/spotupnp/src/spotify.cpp), built with
  \<open>SMART_FLUSH\<close> defined, as the file defines it at line 59. Every handler runs under the
  player mutex, so a handler is one atomic step on the controller's fields. The renderer
  (\<open>shadowRequest\<close>), the protocol client (\<open>spirc\<close>) and the streamer tasks are outside the
  file: every call into them is appended to the field \<open>trace\<close>, in program order.
  Dereferencing a null \<open>shared_ptr\<close>/\<open>unique_ptr\<close> and calling \<open>front()\<close> on an empty deque
  are undefined behaviour in C++; the model returns an \<open>error\<close> there.
\<close>

subsection \<open>Data\<close>

type_synonym uint8 = "8 word"
type_synonym uint32 = "32 word"
type_synonym uint64 = "64 word"

text \<open>
  A C \<open>int\<close> or \<open>int32_t\<close>: 32 bits, read as a signed value with \<open>sint\<close>. Unary minus
  wraps, so the negation of the least value is that value again.
\<close>
type_synonym int32 = "32 word"

text \<open>The address of an \<open>HTTPstreamer\<close> object, as held by a \<open>shared_ptr\<close>.\<close>
type_synonym addr = nat

text \<open>\<open>cspot::TrackInfo\<close>: the three members this file reads.\<close>
record TrackInfo =
  trackId :: string
  name :: string
  duration :: uint32

text \<open>\<open>HTTPstreamer::state\<close>; this file only ever assigns \<open>DRAINING\<close>.\<close>
datatype streamer_state = LOADING | PLAYING | DRAINING | DONE

text \<open>
  The members of \<open>HTTPstreamer\<close> that this file reads or writes. \<open>index_h\<close> is the index
  handed to the constructor, \<open>state_h\<close> the member \<open>state\<close>, \<open>contentLength_h\<close> what
  \<open>setContentLength\<close> stores. \<open>offset\<close> is the signed value of the member, which the
  header declares; every value this file stores in it is the value of a 32-bit \<open>int\<close>.
\<close>
record HTTPstreamer =
  index_h :: uint32
  trackInfo :: TrackInfo
  trackUnique :: string
  offset :: int
  state_h :: streamer_state
  contentLength_h :: int

text \<open>
  The commands of \<open>shadowRequest\<close>. \<open>SPOT_LOAD url d pos\<close> carries the stream URL, the
  member \<open>duration\<close> of the \<open>metadata_t\<close> passed, and the start position as the 32-bit
  value that line 313 casts it to (line 465 passes the same expression uncast; its low 32
  bits are kept).
\<close>
datatype shadowCmd =
  SPOT_LOAD string uint32 uint32
| SPOT_PLAY
| SPOT_PAUSE
| SPOT_STOP
| SPOT_VOLUME int

text \<open>The methods of \<open>cspot::SpircHandler\<close> called on \<open>spirc\<close>.\<close>
datatype spircCall =
  setRemoteVolume int
| updatePositionMs uint32
| notifyAudioReachedPlayback
| notifyAudioEnded
| setPause bool

datatype action =
  Shadow shadowCmd
| Spirc spircCall
| StreamerFlush addr
| StreamerStartTask addr

datatype states = ABORT | LINKED | DISCO

datatype error = NullPlayer | NullSpirc | EmptyDeque

text \<open>
  The fields of \<open>CSpotPlayer\<close>. The two deques keep their front at the head of the list and
  their back at its end. \<open>notifyFlag\<close> is the member \<open>notify\<close> (the name \<open>notify\<close> is kept
  for the friend function). \<open>spirc\<close> tells whether the \<open>unique_ptr\<close> holds a handler.
  \<open>heap\<close> is the store of the \<open>HTTPstreamer\<close> objects that \<open>streamers\<close> and \<open>player\<close> point
  into, and \<open>nextFree\<close> the address \<open>make_shared\<close> returns next.
\<close>
record CSpotPlayer =
  state :: states
  isPaused :: bool
  isRunning :: bool
  playlistEnd :: bool
  notifyFlag :: bool
  flushed :: bool
  streamTrackUnique :: string
  volume :: int
  startOffset :: int32
  lastTimeStamp :: uint64
  lastPosition :: uint32
  index :: uint32
  contentLength :: int
  streamers :: "addr list"
  player :: "addr option"
  flow :: bool
  flowMarkers :: "uint32 list"
  flowPlayedTracks :: "string set"
  flowTrackInfo :: TrackInfo
  spirc :: bool
  heap :: "addr \<Rightarrow> HTTPstreamer"
  nextFree :: addr
  trace :: "action list"

text \<open>
  What the file takes from code that is not in it: the track queue's lookup
  \<open>spirc->getTrackQueue()->getTrackInfo\<close>, \<open>HTTPstreamer::feedPCMFrames\<close> (whether the
  streamer took the bytes, and the streamer afterwards) and \<open>HTTPstreamer::getStreamUrl\<close>.
\<close>
record env =
  getTrackInfo :: "string \<Rightarrow> TrackInfo"
  feedPCMFrames :: "HTTPstreamer \<Rightarrow> uint8 list \<Rightarrow> bool \<times> HTTPstreamer"
  getStreamUrl :: "HTTPstreamer \<Rightarrow> string"

subsection \<open>Helpers outside the file\<close>

text \<open>
  Modelled from the spec: \<open>HTTPstreamer::getMetadata\<close> is not in src. The spec (4.2) says
  the marker recorded from it is the unadjusted track duration, and the callers add the
  offset themselves, so the \<open>duration\<close> it fills in is the one of the streamer's track info.
\<close>
definition getMetadata :: "HTTPstreamer \<Rightarrow> uint32" where
  "getMetadata st = duration (trackInfo st)"

text \<open>
  Modelled from the spec: the constructor of \<open>HTTPstreamer\<close> is not in src. It stores the
  index, the track info, the track key, the offset and the content length it is given;
  the spec (2) has a session start in \<open>LOADING\<close>.
\<close>
definition HTTPstreamer_new :: "uint32 \<Rightarrow> int \<Rightarrow> TrackInfo \<Rightarrow> string \<Rightarrow> int \<Rightarrow> HTTPstreamer" where
  "HTTPstreamer_new i cl ti key off =
     \<lparr>index_h = i, trackInfo = ti, trackUnique = key, offset = off,
      state_h = LOADING, contentLength_h = cl\<rparr>"

text \<open>\<open>url.find(pat) != std::string::npos\<close>.\<close>
fun str_find :: "string \<Rightarrow> string \<Rightarrow> bool" where
  "str_find [] pat = (pat = [])"
| "str_find (c # cs) pat = (take (length pat) (c # cs) = pat \<or> str_find cs pat)"

definition shadowRequest :: "shadowCmd \<Rightarrow> CSpotPlayer \<Rightarrow> CSpotPlayer" where
  "shadowRequest c s = s\<lparr>trace := trace s @ [Shadow c]\<rparr>"

definition spircDo :: "spircCall \<Rightarrow> CSpotPlayer \<Rightarrow> CSpotPlayer" where
  "spircDo c s = s\<lparr>trace := trace s @ [Spirc c]\<rparr>"

subsection \<open>The liveness registry\<close>

text \<open>
  The registry part of the constructor (lines 150-153) and of the destructor (lines 159-165):
  the static set \<open>validPlayers\<close> of \<open>this\<close> pointers. The destructor erases first, then stops
  the controller.
\<close>
definition ctor_register :: "nat \<Rightarrow> nat set \<Rightarrow> nat set" where
  "ctor_register this validPlayers = insert this validPlayers"

definition destructor :: "nat \<Rightarrow> nat set \<times> CSpotPlayer \<Rightarrow> nat set \<times> CSpotPlayer" where
  "destructor this w =
     (fst w - {this}, (snd w)\<lparr>state := ABORT, isRunning := False\<rparr>)"

subsection \<open>trackHandler (lines 275-342)\<close>

definition trackHandler :: "env \<Rightarrow> string \<Rightarrow> CSpotPlayer \<Rightarrow> error + CSpotPlayer" where
  "trackHandler e key s =
    (let s1 = (case streamers s of
                 [] \<Rightarrow> s
               | f # _ \<Rightarrow>
                   if flow s then s
                   else s\<lparr>heap := (heap s)(f := (heap s f)\<lparr>state_h := DRAINING\<rparr>)\<rparr>)
     in
     if \<not> spirc s1 then Inl NullSpirc
     else
       let newTrackInfo = getTrackInfo e key in
       if streamers s1 = [] \<or> \<not> flow s1 then
         let streamer = HTTPstreamer_new (index s1) (contentLength s1) newTrackInfo key
                          (if streamers s1 = [] then sint (- startOffset s1) else 0);
             a = nextFree s1;
             s2 = s1\<lparr>index := index s1 + 1, heap := (heap s1)(a := streamer), nextFree := Suc a\<rparr>;
             md = getMetadata streamer;
             s3 = (if flow s2 then s2\<lparr>flowMarkers := md # flowMarkers s2\<rparr> else s2);
             md' = (if flow s2 then md else md + word_of_int (offset streamer));
             s4 = shadowRequest
                    (SPOT_LOAD (getStreamUrl e streamer) md'
                       (word_of_int (- offset streamer))) s3;
             s5 = (if \<not> isPaused s4 then shadowRequest SPOT_PLAY s4 else s4);
             s6 = s5\<lparr>streamers := a # streamers s5\<rparr>
         in Inr (s6\<lparr>trace := trace s6 @ [StreamerStartTask a]\<rparr>)
       else
         (case (if trackId newTrackInfo \<in> flowPlayedTracks s1
                then Inr (s1\<lparr>flowMarkers := [duration newTrackInfo], flowPlayedTracks := {}\<rparr>)
                else (case flowMarkers s1 of
                        [] \<Rightarrow> Inl EmptyDeque
                      | m # _ \<Rightarrow>
                          Inr (s1\<lparr>flowMarkers := (m + duration newTrackInfo) # flowMarkers s1\<rparr>)))
          of
            Inl err \<Rightarrow> Inl err
          | Inr s2 \<Rightarrow>
              let s3 = s2\<lparr>flowPlayedTracks := insert (trackId newTrackInfo) (flowPlayedTracks s2)\<rparr>
              in (case player s3 of
                    None \<Rightarrow> Inl NullPlayer
                  | Some p \<Rightarrow>
                      Inr (s3\<lparr>heap := (heap s3)(p := (heap s3 p)\<lparr>trackInfo := newTrackInfo\<rparr>)\<rparr>))))"

subsection \<open>writePCM (lines 187-227)\<close>

text \<open>
  \<open>data\<close> is the buffer and \<open>bytes\<close> its length. The result is the \<open>size_t\<close> returned and
  the controller afterwards.
\<close>
definition writePCM ::
  "env \<Rightarrow> nat set \<Rightarrow> nat \<Rightarrow> uint8 list \<Rightarrow> string \<Rightarrow> CSpotPlayer \<Rightarrow> error + (nat \<times> CSpotPlayer)" where
  "writePCM e validPlayers this data key s =
    (if \<not> isRunning s \<or> isPaused s then Inr (0, s)
     else if this \<notin> validPlayers then Inr (0, s)
     else if streamTrackUnique s \<noteq> key \<and> length (streamers s) > 1 then Inr (0, s)
     else
       (case (if streamTrackUnique s \<noteq> key
              then trackHandler e key (s\<lparr>flushed := False, streamTrackUnique := key\<rparr>)
              else Inr s)
        of
          Inl err \<Rightarrow> Inl err
        | Inr s1 \<Rightarrow>
            if flushed s1 then Inr (length data, s1)
            else
              (case streamers s1 of
                 [] \<Rightarrow> Inr (0, s1)
               | f # _ \<Rightarrow>
                   let r = feedPCMFrames e (heap s1 f) data;
                       s2 = s1\<lparr>heap := (heap s1)(f := snd r)\<rparr>
                   in if fst r then Inr (length data, s2) else Inr (0, s2))))"

subsection \<open>disconnect (lines 598-606)\<close>

definition disconnect :: "bool \<Rightarrow> CSpotPlayer \<Rightarrow> CSpotPlayer" where
  "disconnect abort s =
     (shadowRequest SPOT_STOP (s\<lparr>state := (if abort then ABORT else DISCO)\<rparr>))
       \<lparr>streamers := [], player := None\<rparr>"

subsection \<open>eventHandler (lines 344-493)\<close>

datatype Event =
  PLAYBACK_START int32
| PLAY_PAUSE bool
| FLUSH
| NEXT
| PREV
| DISC
| SEEK int32
| DEPLETED
| VOLUME int
| TRACK_INFO TrackInfo
| OTHER

text \<open>
  The payload of an event is the \<open>int\<close>, \<open>bool\<close> or track info that \<open>std::get\<close> reads;
  the \<open>int\<close> of \<open>PLAYBACK_START\<close> and \<open>SEEK\<close> is negated as a 32-bit value (lines 290
  and 438) before it becomes an offset.
  In the \<open>SEEK\<close> case \<open>streamer\<close> is the local \<open>shared_ptr\<close> of line 436: the writes
  through it (offset, content length and, in flow mode, track info) are collected on the
  object and stored back under its address \<open>a\<close>; the trace keeps the order of the calls
  (flush, \<open>SPOT_STOP\<close>, \<open>SPOT_LOAD\<close>, \<open>SPOT_PLAY\<close>). In the \<open>PLAYBACK_START\<close> case \<open>reset\<close>
  is the code from line 367 on, reached when the guard of line 359 does not hold.
\<close>
fun eventHandler :: "env \<Rightarrow> Event \<Rightarrow> CSpotPlayer \<Rightarrow> error + CSpotPlayer" where
  "eventHandler e (PLAYBACK_START d) s =
    (let reset =
           (let s1 = shadowRequest SPOT_STOP s;
                s2 = s1\<lparr>startOffset := d, streamTrackUnique := [], streamers := [],
                        player := None, playlistEnd := False, flowMarkers := [],
                        flowPlayedTracks := {}\<rparr>
            in if spirc s2 then Inr (spircDo (setRemoteVolume (volume s2)) s2)
               else Inl NullSpirc)
     in
     if flushed s then
       (case player s of
          None \<Rightarrow> Inl NullPlayer
        | Some p \<Rightarrow>
            if streamTrackUnique s \<noteq> trackUnique (heap s p)
            then Inr (s\<lparr>streamers := [], streamTrackUnique := trackUnique (heap s p)\<rparr>)
            else reset)
     else reset)"
| "eventHandler e (PLAY_PAUSE b) s =
    (let s1 = s\<lparr>isPaused := b\<rparr>
     in Inr (if player s1 \<noteq> None \<or> streamers s1 \<noteq> []
             then shadowRequest (if isPaused s1 then SPOT_PAUSE else SPOT_PLAY) s1
             else s1))"
| "eventHandler e FLUSH s = Inr (s\<lparr>flushed := True\<rparr>)"
| "eventHandler e NEXT s = Inr (shadowRequest SPOT_STOP s)"
| "eventHandler e PREV s = Inr (shadowRequest SPOT_STOP s)"
| "eventHandler e DISC s = Inr (disconnect False s)"
| "eventHandler e (SEEK d) s =
    (if player s = None \<and> streamers s = [] then Inr s
     else
       let a = (case player s of Some p \<Rightarrow> p | None \<Rightarrow> last (streamers s));
           streamer = (heap s a)\<lparr>offset := sint (- d), contentLength_h := contentLength s\<rparr>;
           streamer' = (if flow s then streamer\<lparr>trackInfo := flowTrackInfo s\<rparr> else streamer);
           md = getMetadata streamer' + word_of_int (offset streamer')
       in Inr (s\<lparr>streamers := [a],
                 flowMarkers := (if flow s then [md] else []),
                 streamTrackUnique := trackUnique streamer,
                 lastPosition := 0,
                 heap := (heap s)(a := streamer'),
                 trace := trace s
                   @ [StreamerFlush a, Shadow SPOT_STOP,
                      Shadow (SPOT_LOAD (getStreamUrl e streamer') md (word_of_int (- offset streamer')))]
                   @ (if isPaused s then [] else [Shadow SPOT_PLAY])\<rparr>))"
| "eventHandler e DEPLETED s =
    (let s1 = s\<lparr>playlistEnd := True\<rparr>
     in Inr (case streamers s1 of
               [] \<Rightarrow> s1
             | f # _ \<Rightarrow> s1\<lparr>heap := (heap s1)(f := (heap s1 f)\<lparr>state_h := DRAINING\<rparr>)\<rparr>))"
| "eventHandler e (VOLUME v) s = Inr (shadowRequest (SPOT_VOLUME v) (s\<lparr>volume := v\<rparr>))"
| "eventHandler e (TRACK_INFO ti) s = Inr (s\<lparr>flowTrackInfo := ti\<rparr>)"
| "eventHandler e OTHER s = Inr s"

subsection \<open>notify (lines 496-596)\<close>

datatype shadowEvent =
  SHADOW_VOLUME int
| SHADOW_TIME uint32
| SHADOW_TRACK string
| SHADOW_PLAY
| SHADOW_PAUSE
| SHADOW_STOP
| SHADOW_OTHER

text \<open>
  The loop of lines 558-562, on the deque with its front at the head: drop sessions from
  the back until one matches; the empty list is the early return of line 561.
\<close>
fun popUntil :: "(addr \<Rightarrow> bool) \<Rightarrow> addr list \<Rightarrow> addr list" where
  "popUntil m [] = []"
| "popUntil m (b # rest) = (if m b then b # rest else popUntil m rest)"

text \<open>\<open>now\<close> is the value \<open>gettime_ms64()\<close> returns in the \<open>SHADOW_TIME\<close> case.\<close>
fun notify :: "env \<Rightarrow> uint64 \<Rightarrow> shadowEvent \<Rightarrow> CSpotPlayer \<Rightarrow> CSpotPlayer" where
  "notify e now (SHADOW_VOLUME v) s =
     (if spirc s then spircDo (setRemoteVolume v) s else s)\<lparr>volume := v\<rparr>"
| "notify e now (SHADOW_TIME position) s =
    (if \<not> spirc s then s
     else case player s of
       None \<Rightarrow> s
     | Some p \<Rightarrow>
         let predicted = ucast (lastPosition s) + now - lastTimeStamp s;
             s1 = (if lastPosition s = 0
                      \<or> predicted > ucast (position + 5000)
                      \<or> predicted + 5000 < ucast position
                   then spircDo (updatePositionMs (position - word_of_int (offset (heap s p))))
                          (s\<lparr>lastPosition := position OR 1\<rparr>)
                   else s\<lparr>lastPosition := position\<rparr>);
             s2 = s1\<lparr>lastTimeStamp := now\<rparr>
         in if flow s2 \<and> length (flowMarkers s2) > 1 \<and> lastPosition s2 \<ge> last (flowMarkers s2)
            then
              let s3 = s2\<lparr>flowMarkers := butlast (flowMarkers s2)\<rparr>
              in if notifyFlag s3 then spircDo notifyAudioReachedPlayback s3
                 else s3\<lparr>notifyFlag := True\<rparr>
            else s2)"
| "notify e now (SHADOW_TRACK url) s =
    (if \<not> spirc s then s
     else if streamers s = []
            \<or> (case player s of
                 None \<Rightarrow> False
               | Some p \<Rightarrow> str_find url (getStreamUrl e (heap s p)))
     then s
     else
       (case rev (popUntil (\<lambda>a. str_find url (getStreamUrl e (heap s a))) (rev (streamers s))) of
          [] \<Rightarrow> s\<lparr>streamers := []\<rparr>
        | q # qs \<Rightarrow>
            let s1 = s\<lparr>streamers := q # qs, player := Some (last (q # qs)), lastPosition := 0\<rparr>;
                s2 = (if notifyFlag s1 then spircDo notifyAudioReachedPlayback s1
                      else s1\<lparr>notifyFlag := True\<rparr>)
            in spircDo (updatePositionMs 0) s2))"
| "notify e now SHADOW_PLAY s = (if \<not> spirc s then s else spircDo (setPause False) s)"
| "notify e now SHADOW_PAUSE s = (if \<not> spirc s then s else spircDo (setPause True) s)"
| "notify e now SHADOW_STOP s =
    (if \<not> spirc s then s
     else if player s \<noteq> None \<and> playlistEnd s
     then spircDo notifyAudioEnded (s\<lparr>playlistEnd := False\<rparr>)
     else disconnect True s)"
| "notify e now SHADOW_OTHER s = s"

subsection \<open>Sequences of calls\<close>

text \<open>
  One call into the controller: an audio delivery (\<open>writePCM\<close>), a protocol event
  (\<open>eventHandler\<close>) or a renderer notification (\<open>notify\<close>, with the clock value it reads).
\<close>
datatype input =
  Deliver "uint8 list" string
| Ev Event
| Notify uint64 shadowEvent

fun step :: "env \<Rightarrow> nat set \<Rightarrow> nat \<Rightarrow> input \<Rightarrow> CSpotPlayer \<Rightarrow> error + CSpotPlayer" where
  "step e vp this (Deliver data key) s =
     (case writePCM e vp this data key s of Inl err \<Rightarrow> Inl err | Inr r \<Rightarrow> Inr (snd r))"
| "step e vp this (Ev ev) s = eventHandler e ev s"
| "step e vp this (Notify now ev) s = Inr (notify e now ev s)"

fun run :: "env \<Rightarrow> nat set \<Rightarrow> nat \<Rightarrow> input list \<Rightarrow> CSpotPlayer \<Rightarrow> error + CSpotPlayer" where
  "run e vp this [] s = Inr s"
| "run e vp this (i # is) s =
     (case step e vp this i s of Inl err \<Rightarrow> Inl err | Inr s' \<Rightarrow> run e vp this is s')"

subsection \<open>Observations\<close>

text \<open>The positions sent to the protocol client with \<open>updatePositionMs\<close>, in order.\<close>
fun positionUpdates :: "action list \<Rightarrow> uint32 list" where
  "positionUpdates [] = []"
| "positionUpdates (Spirc (updatePositionMs p) # tr) = p # positionUpdates tr"
| "positionUpdates (_ # tr) = positionUpdates tr"

text \<open>A run of \<open>SHADOW_TIME\<close> notifications, each with the clock value it reads.\<close>
fun notify_times :: "env \<Rightarrow> (uint64 \<times> uint32) list \<Rightarrow> CSpotPlayer \<Rightarrow> CSpotPlayer" where
  "notify_times e [] s = s"
| "notify_times e ((now, position) # ts) s = notify_times e ts (notify e now (SHADOW_TIME position) s)"

subsection \<open>The constructor, and concrete scenarios\<close>

text \<open>
  The constructor (lines 141-154) and the member initialisers (lines 80-94) on the memory
  \<open>m\<close> the object is built in: \<open>state\<close>, \<open>startOffset\<close>, \<open>lastTimeStamp\<close>,
  \<open>lastPosition\<close> and the duration in \<open>flowTrackInfo\<close> have no initialiser and keep what
  the memory holds; so do the store and the trace, which are not members. \<open>cl\<close> is the
  content length after the adjustment of line 147.
\<close>
definition ctor :: "bool \<Rightarrow> int \<Rightarrow> CSpotPlayer \<Rightarrow> CSpotPlayer" where
  "ctor fl cl m =
     m\<lparr>isPaused := True, isRunning := False, playlistEnd := False, notifyFlag := True,
       flushed := False, streamTrackUnique := [], volume := 0, index := 0,
       contentLength := cl, streamers := [], player := None, flow := fl,
       flowMarkers := [], flowPlayedTracks := {},
       flowTrackInfo := (flowTrackInfo m)\<lparr>trackId := [], name := []\<rparr>, spirc := False\<rparr>"

text \<open>
  What \<open>runTask\<close> (lines 638-700) does to the fields once authentication succeeded: the
  task runs, the state is \<open>LINKED\<close> and \<open>spirc\<close> holds a handler.
\<close>
definition runTask_linked :: "CSpotPlayer \<Rightarrow> CSpotPlayer" where
  "runTask_linked s = s\<lparr>isRunning := True, state := LINKED, spirc := True\<rparr>"

definition trackA :: TrackInfo where
  "trackA = \<lparr>trackId = ''A'', name = ''Song A'', duration = 200000\<rparr>"

definition trackB :: TrackInfo where
  "trackB = \<lparr>trackId = ''B'', name = ''Song B'', duration = 180000\<rparr>"

text \<open>
  A track queue where the key \<open>kB\<close> is track B and every other key track A, streamers that
  take every chunk, and a stream URL that spells the streamer's index in unary.
\<close>
definition demo_env :: env where
  "demo_env =
     \<lparr>getTrackInfo = (\<lambda>k. if k = ''kB'' then trackB else trackA),
      feedPCMFrames = (\<lambda>st d. (True, st)),
      getStreamUrl = (\<lambda>st. ''/stream/'' @ replicate (unat (index_h st)) (CHR ''i'') @ ''.flac'')\<rparr>"

definition raw0 :: CSpotPlayer where
  "raw0 =
     \<lparr>state = ABORT, isPaused = False, isRunning = False, playlistEnd = False,
      notifyFlag = False, flushed = False, streamTrackUnique = [], volume = 0,
      startOffset = 0, lastTimeStamp = 0, lastPosition = 0, index = 0, contentLength = 0,
      streamers = [], player = None, flow = False, flowMarkers = [],
      flowPlayedTracks = {}, flowTrackInfo = trackA, spirc = False,
      heap = (\<lambda>a. HTTPstreamer_new 0 0 trackA [] 0), nextFree = 0, trace = []\<rparr>"

text \<open>A linked controller, in flow mode or not, that was told to play.\<close>
definition started :: "bool \<Rightarrow> CSpotPlayer" where
  "started fl = (runTask_linked (ctor fl 0 raw0))\<lparr>isPaused := False\<rparr>"

text \<open>
  A run that ends with two sessions queued, outside flow mode: playback starts at
  5000 ms, track A is delivered (session 0, offset -5000) and starts playing, then track B
  is delivered (session 1).
\<close>
definition seek_demo :: "error + CSpotPlayer" where
  "seek_demo =
     run demo_env {7} 7
       [Ev (PLAYBACK_START 5000), Deliver [1, 2] ''kA'',
        Notify 1000 (SHADOW_TRACK ''http://host/stream/.flac''), Deliver [3, 4] ''kB'']
       (started False)"

text \<open>
  The same run in flow mode, where track B only adds a marker; the protocol client last
  announced track A.
\<close>
definition seek_flow_demo :: "error + CSpotPlayer" where
  "seek_flow_demo =
     run demo_env {7} 7
       [Ev (PLAYBACK_START 5000), Deliver [1, 2] ''kA'',
        Notify 1000 (SHADOW_TRACK ''http://host/stream/.flac''), Deliver [3, 4] ''kB'',
        Ev (TRACK_INFO trackA)]
       (started True)"

text \<open>
  Flow mode, one session, track B being the second track of the stream: two markers,
  last position 40000 ms stamped at clock 1000.
\<close>
definition time_demo :: CSpotPlayer where
  "time_demo =
     (started True)\<lparr>streamers := [0], player := Some 0, streamTrackUnique := ''kB'',
        flowMarkers := [380000, 200000], flowPlayedTracks := {''B''},
        lastPosition := 40000, lastTimeStamp := 1000, nextFree := 1, index := 1,
        heap := (\<lambda>a. HTTPstreamer_new 0 0 trackB ''kA'' 0)\<rparr>"

text \<open>One session playing track A under key \<open>kA\<close>, which is also the tracked key.\<close>
definition playing_demo :: CSpotPlayer where
  "playing_demo =
     (started False)\<lparr>streamers := [0], player := Some 0, streamTrackUnique := ''kA'',
        nextFree := 1, index := 1,
        heap := (\<lambda>a. HTTPstreamer_new 0 0 trackA ''kA'' 0)\<rparr>"

text \<open>
  Flow mode: track A is delivered and starts playing, then track B is delivered, then
  track A again.
\<close>
definition loop_demo :: "error + CSpotPlayer" where
  "loop_demo =
     run demo_env {7} 7
       [Deliver [1, 2] ''kA'', Notify 1000 (SHADOW_TRACK ''http://host/stream/.flac''),
        Deliver [3, 4] ''kB'', Deliver [5, 6] ''kA'']
       (started True)"


text \<open>
  A flush and a \<open>PLAYBACK_START\<close> while the tracked key is the one playing, then audio
  under that same key.
\<close>
definition resend_demo :: "error + CSpotPlayer" where
  "resend_demo =
     run demo_env {7} 7 [Ev FLUSH, Ev (PLAYBACK_START 0), Deliver [1, 2] ''kA''] playing_demo"

section \<open>Properties\<close>

subsection \<open>What a handler leaves alone\<close>

lemma trackHandler_flushed: "trackHandler e key s = Inr s' \<Longrightarrow> flushed s' = flushed s"
  by (auto simp: trackHandler_def Let_def shadowRequest_def split: list.splits if_splits option.splits sum.splits)

lemma trackHandler_streamTrackUnique: "trackHandler e key s = Inr s' \<Longrightarrow> streamTrackUnique s' = streamTrackUnique s"
  by (auto simp: trackHandler_def Let_def shadowRequest_def split: list.splits if_splits option.splits sum.splits)

lemma trackHandler_streamers:
  "trackHandler e key s = Inr s' \<Longrightarrow>
     streamers s' = (if streamers s = [] \<or> \<not> flow s then nextFree s # streamers s else streamers s)"
  by (auto simp: trackHandler_def Let_def shadowRequest_def split: list.splits if_splits option.splits sum.splits)

lemma trackHandler_nonempty: "trackHandler e key s = Inr s' \<Longrightarrow> streamers s' \<noteq> []"
  by (auto dest: trackHandler_streamers split: if_splits)

lemma eventHandler_flushed: "eventHandler e ev s = Inr s' \<Longrightarrow> flushed s \<Longrightarrow> flushed s'"
  by (cases ev) (auto simp: Let_def shadowRequest_def spircDo_def disconnect_def split: option.splits if_splits list.splits)

lemma notify_flushed: "flushed (notify e now ev s) = flushed s"
  by (cases ev) (auto simp: Let_def shadowRequest_def spircDo_def disconnect_def split: option.splits if_splits list.splits)

lemma writePCM_same_key_flushed:
  "writePCM e vp this data (streamTrackUnique s) s = Inr (n, s') \<Longrightarrow> flushed s' = flushed s"
  by (auto simp: writePCM_def Let_def split: if_splits list.splits)

lemma writePCM_full_queue:
  "writePCM e vp this data key s = Inr (n, s') \<Longrightarrow> key \<noteq> streamTrackUnique s \<Longrightarrow> length (streamers s) > 1 \<Longrightarrow> n = 0 \<and> s' = s"
  by (auto simp: writePCM_def Let_def split: if_splits list.splits)

lemma writePCM_new_key:
  assumes "isRunning s" "\<not> isPaused s" "this \<in> vp" "key \<noteq> streamTrackUnique s" "length (streamers s) \<le> 1"
    and w: "writePCM e vp this data key s = Inr (n, s')"
  shows "\<exists>s1. trackHandler e key (s\<lparr>flushed := False, streamTrackUnique := key\<rparr>) = Inr s1
             \<and> streamers s1 \<noteq> [] \<and> \<not> flushed s1 \<and> streamTrackUnique s1 = key
             \<and> s' = s1\<lparr>heap := (heap s1)(hd (streamers s1) := snd (feedPCMFrames e (heap s1 (hd (streamers s1))) data))\<rparr>
             \<and> n = (if fst (feedPCMFrames e (heap s1 (hd (streamers s1))) data) then length data else 0)"
proof -
  from assms obtain s1 where t: "trackHandler e key (s\<lparr>flushed := False, streamTrackUnique := key\<rparr>) = Inr s1"
    by (auto simp: writePCM_def split: sum.splits)
  have nf: "\<not> flushed s1" using trackHandler_flushed [OF t] by simp
  have k: "streamTrackUnique s1 = key" using trackHandler_streamTrackUnique [OF t] by simp
  have ne: "streamers s1 \<noteq> []" by (rule trackHandler_nonempty [OF t])
  then obtain f fs where fs: "streamers s1 = f # fs" by (cases "streamers s1") auto
  from w assms(1-5) t nf fs k show ?thesis
    by (auto simp: writePCM_def Let_def)
qed

lemma step_keeps_flushed:
  assumes "flushed s" and "step e vp this i s = Inr s'" and "\<not> flushed s'"
  shows "\<exists>d key. i = Deliver d key \<and> key \<noteq> streamTrackUnique s \<and> length (streamers s) \<le> 1"
proof (cases i)
  case (Deliver d key)
  with assms obtain n where w: "writePCM e vp this d key s = Inr (n, s')"
    by (auto split: sum.splits)
  have k: "key \<noteq> streamTrackUnique s" using w assms writePCM_same_key_flushed by blast
  have "length (streamers s) \<le> 1"
  proof (rule ccontr)
    assume "\<not> length (streamers s) \<le> 1"
    then have "s' = s" using writePCM_full_queue [OF w k] by simp
    with assms show False by simp
  qed
  with k Deliver show ?thesis by blast
next
  case (Ev ev)
  with assms show ?thesis using eventHandler_flushed by auto
next
  case (Notify now ev)
  with assms show ?thesis using notify_flushed by auto
qed

subsection \<open>Disconnect\<close>

text \<open>
  C8. \<open>disconnect\<close> is idempotent: a second call with the same argument changes no field of
  the controller; all it does is send the renderer one more \<open>SPOT_STOP\<close>. After one call
  and after two (whatever their arguments) the streamer queue is empty and \<open>player\<close> is
  unset. The call does not tear the controller down: \<open>isRunning\<close>, \<open>spirc\<close> and the
  streamer objects are as before.
\<close>
theorem disconnect_idempotent:
  "disconnect a (disconnect a s) = (disconnect a s)\<lparr>trace := trace (disconnect a s) @ [Shadow SPOT_STOP]\<rparr>
   \<and> streamers (disconnect a s) = [] \<and> player (disconnect a s) = None
   \<and> streamers (disconnect b (disconnect a s)) = [] \<and> player (disconnect b (disconnect a s)) = None
   \<and> isRunning (disconnect a s) = isRunning s \<and> spirc (disconnect a s) = spirc s
   \<and> heap (disconnect a s) = heap s"
  by (simp add: disconnect_def shadowRequest_def)

subsection \<open>Audio delivery\<close>

text \<open>
  C3. \<open>writePCM\<close> returns 0 and leaves every field as it was when the controller is not
  running, is paused, or \<open>this\<close> is not in \<open>validPlayers\<close>, for every buffer and track
  key; once the destructor has erased \<open>this\<close> from the registry, every call does so,
  whatever the state it finds.
\<close>
theorem writePCM_not_live:
  "(\<not> isRunning s \<or> isPaused s \<or> this \<notin> validPlayers \<longrightarrow>
      writePCM e validPlayers this data key s = Inr (0, s))
   \<and> writePCM e (fst (destructor this (validPlayers, s0))) this data key s = Inr (0, s)"
  by (simp add: writePCM_def destructor_def)

theorem writePCM_not_live_witness:
  "(7::nat) \<in> {7} \<and> (8::nat) \<notin> {7}
   \<and> isRunning (started True) \<and> \<not> isPaused (started True)
   \<and> writePCM demo_env {7} 8 [1, 2, 3] ''kA'' (started True) = Inr (0, started True)
   \<and> isPaused (runTask_linked (ctor True 0 raw0))
   \<and> writePCM demo_env {7} 7 [1, 2, 3] ''kA'' (runTask_linked (ctor True 0 raw0))
        = Inr (0, runTask_linked (ctor True 0 raw0))
   \<and> \<not> isRunning (ctor True 0 raw0)
   \<and> writePCM demo_env {7} 7 [1, 2, 3] ''kA'' (ctor True 0 raw0) = Inr (0, ctor True 0 raw0)
   \<and> writePCM demo_env (fst (destructor 7 ({7}, started True))) 7 [1, 2, 3] ''kA'' (started True)
        = Inr (0, started True)"
  using writePCM_not_live [where s = "started True" and this = 8 and validPlayers = "{7}"
      and e = demo_env and data = "[1, 2, 3]" and key = "''kA''" and ?s0.0 = "started True"]
    writePCM_not_live [where s = "runTask_linked (ctor True 0 raw0)" and this = 7
      and validPlayers = "{7}" and e = demo_env and data = "[1, 2, 3]" and key = "''kA''"
      and ?s0.0 = "started True"]
    writePCM_not_live [where s = "ctor True 0 raw0" and this = 7 and validPlayers = "{7}"
      and e = demo_env and data = "[1, 2, 3]" and key = "''kA''" and ?s0.0 = "started True"]
    writePCM_not_live [where s = "started True" and this = 7 and validPlayers = "{7}"
      and e = demo_env and data = "[1, 2, 3]" and key = "''kA''" and ?s0.0 = "started True"]
  by (simp add: started_def runTask_linked_def ctor_def)


text \<open>
  C10. With the flushed latch set, a delivery under the tracked key reports all its bytes
  as taken and changes nothing: no streamer is fed. Among all calls into the controller,
  only a delivery under another key, with fewer than two sessions queued, clears the
  latch; such a delivery goes through \<open>trackHandler\<close> and then hands the bytes to the
  front streamer, whose answer decides the count returned.
\<close>
theorem smart_flush_discards:
  assumes "isRunning s" and "\<not> isPaused s" and "this \<in> validPlayers" and "flushed s"
  shows "writePCM e validPlayers this data (streamTrackUnique s) s = Inr (length data, s)
    \<and> (\<forall>i s'. step e validPlayers this i s = Inr s' \<and> \<not> flushed s' \<longrightarrow>
          (\<exists>d key. i = Deliver d key \<and> key \<noteq> streamTrackUnique s \<and> length (streamers s) \<le> 1))
    \<and> (\<forall>key n s'. key \<noteq> streamTrackUnique s \<and> length (streamers s) \<le> 1
            \<and> writePCM e validPlayers this data key s = Inr (n, s') \<longrightarrow>
          \<not> flushed s' \<and> streamTrackUnique s' = key \<and> streamers s' \<noteq> [] \<and>
          (\<exists>s1. trackHandler e key (s\<lparr>flushed := False, streamTrackUnique := key\<rparr>) = Inr s1
             \<and> s' = s1\<lparr>heap := (heap s1)(hd (streamers s1) := snd (feedPCMFrames e (heap s1 (hd (streamers s1))) data))\<rparr>
             \<and> n = (if fst (feedPCMFrames e (heap s1 (hd (streamers s1))) data) then length data else 0)))"
proof (intro conjI allI impI)
  show "writePCM e validPlayers this data (streamTrackUnique s) s = Inr (length data, s)"
    using assms by (simp add: writePCM_def)
next
  fix i s'
  assume "step e validPlayers this i s = Inr s' \<and> \<not> flushed s'"
  then show "\<exists>d key. i = Deliver d key \<and> key \<noteq> streamTrackUnique s \<and> length (streamers s) \<le> 1"
    using step_keeps_flushed [OF assms(4)] by blast
next
  fix key n s'
  assume h: "key \<noteq> streamTrackUnique s \<and> length (streamers s) \<le> 1
            \<and> writePCM e validPlayers this data key s = Inr (n, s')"
  then obtain s1 where s1: "trackHandler e key (s\<lparr>flushed := False, streamTrackUnique := key\<rparr>) = Inr s1"
      "streamers s1 \<noteq> []" "\<not> flushed s1" "streamTrackUnique s1 = key"
      "s' = s1\<lparr>heap := (heap s1)(hd (streamers s1) := snd (feedPCMFrames e (heap s1 (hd (streamers s1))) data))\<rparr>"
      "n = (if fst (feedPCMFrames e (heap s1 (hd (streamers s1))) data) then length data else 0)"
    using writePCM_new_key [OF assms(1-3), of key e data n s'] by blast
  show "\<not> flushed s'" using s1 by simp
  show "streamTrackUnique s' = key" using s1 by simp
  show "streamers s' \<noteq> []" using s1 by simp
  show "\<exists>s1. trackHandler e key (s\<lparr>flushed := False, streamTrackUnique := key\<rparr>) = Inr s1
             \<and> s' = s1\<lparr>heap := (heap s1)(hd (streamers s1) := snd (feedPCMFrames e (heap s1 (hd (streamers s1))) data))\<rparr>
             \<and> n = (if fst (feedPCMFrames e (heap s1 (hd (streamers s1))) data) then length data else 0)"
    using s1 by blast
qed


theorem smart_flush_discards_witness:
  "isRunning (playing_demo\<lparr>flushed := True\<rparr>) \<and> \<not> isPaused (playing_demo\<lparr>flushed := True\<rparr>)
   \<and> (7::nat) \<in> {7} \<and> flushed (playing_demo\<lparr>flushed := True\<rparr>)
   \<and> streamTrackUnique (playing_demo\<lparr>flushed := True\<rparr>) = ''kA''
   \<and> writePCM demo_env {7} 7 [1, 2, 3] ''kA'' (playing_demo\<lparr>flushed := True\<rparr>)
       = Inr (3, playing_demo\<lparr>flushed := True\<rparr>)
   \<and> (\<exists>s'. writePCM demo_env {7} 7 [1, 2, 3] ''kB'' (playing_demo\<lparr>flushed := True\<rparr>) = Inr (3, s')
         \<and> \<not> flushed s' \<and> streamTrackUnique s' = ''kB'' \<and> streamers s' \<noteq> [])"
proof -
  have pre: "isRunning (playing_demo\<lparr>flushed := True\<rparr>)"
    "\<not> isPaused (playing_demo\<lparr>flushed := True\<rparr>)" "(7::nat) \<in> {7}"
    "flushed (playing_demo\<lparr>flushed := True\<rparr>)"
    and k: "streamTrackUnique (playing_demo\<lparr>flushed := True\<rparr>) = ''kA''"
    and l: "length (streamers (playing_demo\<lparr>flushed := True\<rparr>)) \<le> 1"
    by (simp_all add: playing_demo_def started_def runTask_linked_def ctor_def)
  note t = smart_flush_discards [OF pre, where e = demo_env and data = "[1, 2, 3]"]
  have a: "writePCM demo_env {7} 7 [1, 2, 3] ''kA'' (playing_demo\<lparr>flushed := True\<rparr>)
       = Inr (3, playing_demo\<lparr>flushed := True\<rparr>)"
    using t k by simp
  have "\<exists>s'. writePCM demo_env {7} 7 [1, 2, 3] ''kB'' (playing_demo\<lparr>flushed := True\<rparr>) = Inr (3, s')"
    by (simp add: playing_demo_def started_def runTask_linked_def ctor_def raw0_def demo_env_def
          writePCM_def trackHandler_def HTTPstreamer_new_def getMetadata_def shadowRequest_def
          Let_def)
  then obtain s' where
    w: "writePCM demo_env {7} 7 [1, 2, 3] ''kB'' (playing_demo\<lparr>flushed := True\<rparr>) = Inr (3, s')"
    by blast
  have t3: "\<And>key n s'. key \<noteq> streamTrackUnique (playing_demo\<lparr>flushed := True\<rparr>) \<Longrightarrow>
      length (streamers (playing_demo\<lparr>flushed := True\<rparr>)) \<le> 1 \<Longrightarrow>
      writePCM demo_env {7} 7 [1, 2, 3] key (playing_demo\<lparr>flushed := True\<rparr>) = Inr (n, s') \<Longrightarrow>
      \<not> flushed s' \<and> streamTrackUnique s' = key \<and> streamers s' \<noteq> []"
    using t by blast
  have "''kB'' \<noteq> streamTrackUnique (playing_demo\<lparr>flushed := True\<rparr>)"
    unfolding k by simp
  from t3 [OF this l w]
  have "\<not> flushed s' \<and> streamTrackUnique s' = ''kB'' \<and> streamers s' \<noteq> []" .
  with a w pre k show ?thesis by blast
qed

subsection \<open>PLAYBACK_START after a flush\<close>

text \<open>
  C9. With the flushed latch set, \<open>PLAYBACK_START\<close> reads \<open>player->trackUnique\<close> before any
  other test, so it dereferences a null pointer exactly when the latch is set and no
  session is active. A \<open>FLUSH\<close> right after the controller was linked, before any track,
  followed by \<open>PLAYBACK_START\<close>, does so.
\<close>
theorem playback_start_null_player:
  "((eventHandler e (PLAYBACK_START d) s = Inl NullPlayer) = (flushed s \<and> player s = None))
   \<and> run e vp this [Ev FLUSH, Ev (PLAYBACK_START d)] (runTask_linked (ctor fl cl m)) = Inl NullPlayer"
  by (auto simp: Let_def ctor_def runTask_linked_def split: option.splits)

text \<open>
  C2. The specification has \<open>PLAYBACK_START\<close> absorbed when the key it meets is the one
  playing, and
  processed in full when the keys differ. The guard of line 359 is the other way round.
  With the latch set by \<open>FLUSH\<close> and a session playing: when the tracked key differs from
  the playing session's key, \<open>PLAYBACK_START\<close> only empties the queue and sets the tracked
  key to the playing session's key (\<open>player\<close> is kept, nothing is sent to the renderer);
  when the tracked key already is the playing session's key, \<open>PLAYBACK_START\<close> is processed
  in full: \<open>SPOT_STOP\<close>, \<open>player\<close> unset, queue, markers and played set cleared.
\<close>
theorem playback_start_after_flush:
  "player s = Some p \<longrightarrow>
     (streamTrackUnique s \<noteq> trackUnique (heap s p) \<longrightarrow>
        run e vp this [Ev FLUSH, Ev (PLAYBACK_START d)] s
          = Inr (s\<lparr>flushed := True, streamers := [],
                   streamTrackUnique := trackUnique (heap s p)\<rparr>))
   \<and> (streamTrackUnique s = trackUnique (heap s p) \<and> spirc s \<longrightarrow>
        run e vp this [Ev FLUSH, Ev (PLAYBACK_START d)] s
          = Inr (s\<lparr>flushed := True, startOffset := d, streamTrackUnique := [],
                   streamers := [], player := None, playlistEnd := False,
                   flowMarkers := [], flowPlayedTracks := {},
                   trace := trace s @ [Shadow SPOT_STOP, Spirc (setRemoteVolume (volume s))]\<rparr>))"
  by (auto simp: Let_def shadowRequest_def spircDo_def)

theorem playback_start_after_flush_witness:
  "player time_demo = Some 0 \<and> streamTrackUnique time_demo = ''kB''
   \<and> trackUnique (heap time_demo 0) = ''kA''
   \<and> run demo_env {7} 7 [Ev FLUSH, Ev (PLAYBACK_START 0)] time_demo
       = Inr (time_demo\<lparr>flushed := True, streamers := [], streamTrackUnique := ''kA''\<rparr>)
   \<and> player playing_demo = Some 0 \<and> streamTrackUnique playing_demo = ''kA''
   \<and> trackUnique (heap playing_demo 0) = ''kA'' \<and> spirc playing_demo
   \<and> run demo_env {7} 7 [Ev FLUSH, Ev (PLAYBACK_START 3000)] playing_demo
       = Inr (playing_demo\<lparr>flushed := True, startOffset := 3000, streamTrackUnique := [],
                streamers := [], player := None, playlistEnd := False, flowMarkers := [],
                flowPlayedTracks := {},
                trace := trace playing_demo @ [Shadow SPOT_STOP, Spirc (setRemoteVolume 0)]\<rparr>)"
proof -
  have pre: "player time_demo = Some 0" "streamTrackUnique time_demo = ''kB''"
    "trackUnique (heap time_demo 0) = ''kA''"
    by (simp_all add: time_demo_def started_def runTask_linked_def ctor_def raw0_def
          HTTPstreamer_new_def)
  have pre': "player playing_demo = Some 0" "streamTrackUnique playing_demo = ''kA''"
    "trackUnique (heap playing_demo 0) = ''kA''" "spirc playing_demo" "volume playing_demo = 0"
    by (simp_all add: playing_demo_def started_def runTask_linked_def ctor_def raw0_def
          HTTPstreamer_new_def)
  from playback_start_after_flush [where s = time_demo and p = 0 and e = demo_env
      and vp = "{7}" and this = 7 and d = 0]
    playback_start_after_flush [where s = playing_demo and p = 0 and e = demo_env
      and vp = "{7}" and this = 7 and d = 3000]
    pre pre'
  show ?thesis by simp
qed

text \<open>
  C2, as the specification states it, at a session playing under the tracked key: after \<open>FLUSH\<close> and
  \<open>PLAYBACK_START\<close> the player is unset and a \<open>SPOT_STOP\<close> was sent, and audio that then
  arrives under the same key makes a new session and a new \<open>SPOT_LOAD\<close>.
\<close>
theorem playback_start_after_flush_counterexample:
  "player playing_demo = Some 0
   \<and> streamTrackUnique playing_demo = trackUnique (heap playing_demo 0)
   \<and> run demo_env {7} 7 [Ev FLUSH, Ev (PLAYBACK_START 0)] playing_demo
       = Inr (playing_demo\<lparr>flushed := True, streamTrackUnique := [], streamers := [],
                player := None,
                trace := [Shadow SPOT_STOP, Spirc (setRemoteVolume 0)]\<rparr>)
   \<and> \<not> isl resend_demo
   \<and> player (projr resend_demo) = None
   \<and> trace (projr resend_demo)
       = [Shadow SPOT_STOP, Spirc (setRemoteVolume 0),
          Shadow (SPOT_LOAD ''/stream/i.flac'' 200000 0), Shadow SPOT_PLAY,
          StreamerStartTask 1]"
  by (simp add: resend_demo_def playing_demo_def started_def runTask_linked_def ctor_def raw0_def
        demo_env_def trackA_def writePCM_def trackHandler_def HTTPstreamer_new_def getMetadata_def
        shadowRequest_def spircDo_def Let_def)

subsection \<open>SEEK\<close>

text \<open>Negating a 32-bit \<open>int\<close> negates its value, except for the least one.\<close>
lemma sint_neg_int32:
  fixes d :: int32
  assumes "d \<noteq> - 2147483648"
  shows "sint (- d) = - sint d"
proof -
  have ge: "- 2147483648 \<le> sint d" using sint_ge [of d] by simp
  have lt: "sint d < 2147483648" using sint_lt [of d] by simp
  have ne: "sint d \<noteq> - 2147483648"
  proof
    assume "sint d = - 2147483648"
    then have "word_of_int (sint d) = (word_of_int (- 2147483648) :: int32)" by simp
    then show False using assms by simp
  qed
  have "sint (- d) = signed_take_bit 31 (- sint d)" by (simp add: sint_word_ariths)
  also have "\<dots> = - sint d" using ge lt ne by (intro signed_take_bit_int_eq_self) auto
  finally show ?thesis .
qed

text \<open>
  C6. \<open>SEEK\<close> does nothing when there is neither a player nor a queued session.
  Otherwise it takes the player if set, else the back of the queue; sets that session's
  offset to the 32-bit negation of the target (30000 gives -30000, whatever the offset
  was); leaves exactly that session in the queue; drops every marker held before and, in
  flow mode, seeds one new marker, duration + offset, so that the marker sequence is
  empty afterwards only outside flow mode; resets \<open>lastPosition\<close> to 0; and flushes the
  session, sends \<open>SPOT_STOP\<close>, then \<open>SPOT_LOAD\<close> with duration + offset and the target as
  start position, then \<open>SPOT_PLAY\<close> unless paused. In flow mode the duration is the one of
  \<open>flowTrackInfo\<close>.
\<close>
theorem seek_handler:
  "(player s = None \<and> streamers s = [] \<longrightarrow> eventHandler e (SEEK d) s = Inr s)
   \<and> ((player s \<noteq> None \<or> streamers s \<noteq> [])
        \<and> a = (case player s of Some p \<Rightarrow> p | None \<Rightarrow> last (streamers s)) \<longrightarrow>
       (\<exists>s'. eventHandler e (SEEK d) s = Inr s'
          \<and> offset (heap s' a) = sint (- d)
          \<and> (d \<noteq> - 2147483648 \<longrightarrow> offset (heap s' a) = - sint d)
          \<and> trackInfo (heap s' a) = (if flow s then flowTrackInfo s else trackInfo (heap s a))
          \<and> streamers s' = [a]
          \<and> player s' = player s
          \<and> flowMarkers s' =
              (if flow s then [duration (flowTrackInfo s) + word_of_int (offset (heap s' a))]
               else [])
          \<and> lastPosition s' = 0
          \<and> trace s' = trace s
               @ [StreamerFlush a, Shadow SPOT_STOP,
                  Shadow (SPOT_LOAD (getStreamUrl e (heap s' a))
                            (duration (trackInfo (heap s' a)) + word_of_int (offset (heap s' a)))
                            d)]
               @ (if isPaused s then [] else [Shadow SPOT_PLAY])))"
  by (auto simp: Let_def getMetadata_def sint_neg_int32)

theorem seek_handler_witness:
  "player (started False) = None \<and> streamers (started False) = []
   \<and> eventHandler demo_env (SEEK 30000) (started False) = Inr (started False)
   \<and> \<not> isl seek_demo
   \<and> player (projr seek_demo) = Some 0 \<and> offset (heap (projr seek_demo) 0) = - 5000
   \<and> streamers (projr seek_demo) = [1, 0] \<and> \<not> flow (projr seek_demo)
   \<and> (\<exists>s'. eventHandler demo_env (SEEK 30000) (projr seek_demo) = Inr s'
         \<and> offset (heap s' 0) = - 30000
         \<and> streamers s' = [0] \<and> player s' = Some 0
         \<and> flowMarkers s' = [] \<and> lastPosition s' = 0
         \<and> trace s' = trace (projr seek_demo)
              @ [StreamerFlush 0, Shadow SPOT_STOP,
                 Shadow (SPOT_LOAD ''/stream/.flac'' 170000 30000), Shadow SPOT_PLAY])
   \<and> \<not> isl seek_flow_demo
   \<and> player (projr seek_flow_demo) = Some 0 \<and> offset (heap (projr seek_flow_demo) 0) = - 5000
   \<and> flowMarkers (projr seek_flow_demo) = [380000, 200000] \<and> flow (projr seek_flow_demo)
   \<and> (\<exists>s'. eventHandler demo_env (SEEK 30000) (projr seek_flow_demo) = Inr s'
         \<and> offset (heap s' 0) = - 30000
         \<and> streamers s' = [0] \<and> player s' = Some 0
         \<and> flowMarkers s' = [170000] \<and> lastPosition s' = 0
         \<and> trace s' = trace (projr seek_flow_demo)
              @ [StreamerFlush 0, Shadow SPOT_STOP,
                 Shadow (SPOT_LOAD ''/stream/.flac'' 170000 30000), Shadow SPOT_PLAY])"
proof -
  have n: "player (started False) = None \<and> streamers (started False) = []"
    by (simp add: started_def runTask_linked_def ctor_def)
  from n seek_handler [where s = "started False" and e = demo_env and d = 30000]
  have n': "eventHandler demo_env (SEEK 30000) (started False) = Inr (started False)"
    by blast
  have pre: "\<not> isl seek_demo" "player (projr seek_demo) = Some 0"
    "offset (heap (projr seek_demo) 0) = - 5000" "streamers (projr seek_demo) = [1, 0]"
    "\<not> flow (projr seek_demo)" "\<not> isPaused (projr seek_demo)"
    "index_h (heap (projr seek_demo) 0) = 0"
    "duration (trackInfo (heap (projr seek_demo) 0)) = 200000"
    by (simp_all add: seek_demo_def started_def runTask_linked_def ctor_def raw0_def demo_env_def
          trackA_def trackB_def writePCM_def trackHandler_def HTTPstreamer_new_def
          getMetadata_def shadowRequest_def spircDo_def Let_def)
  have fpre: "\<not> isl seek_flow_demo" "player (projr seek_flow_demo) = Some 0"
    "offset (heap (projr seek_flow_demo) 0) = - 5000"
    "flowMarkers (projr seek_flow_demo) = [380000, 200000]"
    "flow (projr seek_flow_demo)" "\<not> isPaused (projr seek_flow_demo)"
    "index_h (heap (projr seek_flow_demo) 0) = 0"
    "duration (flowTrackInfo (projr seek_flow_demo)) = 200000"
    by (simp_all add: seek_flow_demo_def started_def runTask_linked_def ctor_def raw0_def
          demo_env_def trackA_def trackB_def writePCM_def trackHandler_def HTTPstreamer_new_def
          getMetadata_def shadowRequest_def spircDo_def Let_def)
  from seek_handler [where s = "projr seek_demo" and a = 0 and e = demo_env and d = 30000] pre
  obtain s' where s': "eventHandler demo_env (SEEK 30000) (projr seek_demo) = Inr s'"
      "offset (heap s' 0) = sint (- 30000 :: int32)"
      "trackInfo (heap s' 0) = trackInfo (heap (projr seek_demo) 0)"
      "streamers s' = [0]" "player s' = Some 0" "flowMarkers s' = []" "lastPosition s' = 0"
      "trace s' = trace (projr seek_demo) @ [StreamerFlush 0, Shadow SPOT_STOP,
         Shadow (SPOT_LOAD (getStreamUrl demo_env (heap s' 0))
                   (duration (trackInfo (heap s' 0)) + word_of_int (offset (heap s' 0))) 30000),
         Shadow SPOT_PLAY]"
    by auto
  have o: "offset (heap s' 0) = - 30000" using s'(2) by simp
  have "index_h (heap s' 0) = 0" using s'(1) pre by (auto simp: Let_def)
  then have u: "getStreamUrl demo_env (heap s' 0) = ''/stream/.flac''"
    by (simp add: demo_env_def)
  have m: "duration (trackInfo (heap s' 0)) + word_of_int (offset (heap s' 0)) = (170000 :: uint32)"
    using s'(3) o pre(8) by simp
  have A: "\<exists>s'. eventHandler demo_env (SEEK 30000) (projr seek_demo) = Inr s'
         \<and> offset (heap s' 0) = - 30000
         \<and> streamers s' = [0] \<and> player s' = Some 0
         \<and> flowMarkers s' = [] \<and> lastPosition s' = 0
         \<and> trace s' = trace (projr seek_demo)
              @ [StreamerFlush 0, Shadow SPOT_STOP,
                 Shadow (SPOT_LOAD ''/stream/.flac'' 170000 30000), Shadow SPOT_PLAY]"
    using s' o u m by auto
  from seek_handler [where s = "projr seek_flow_demo" and a = 0 and e = demo_env and d = 30000] fpre
  obtain t' where t': "eventHandler demo_env (SEEK 30000) (projr seek_flow_demo) = Inr t'"
      "offset (heap t' 0) = sint (- 30000 :: int32)"
      "trackInfo (heap t' 0) = flowTrackInfo (projr seek_flow_demo)"
      "streamers t' = [0]" "player t' = Some 0"
      "flowMarkers t' = [duration (flowTrackInfo (projr seek_flow_demo)) + word_of_int (offset (heap t' 0))]"
      "lastPosition t' = 0"
      "trace t' = trace (projr seek_flow_demo) @ [StreamerFlush 0, Shadow SPOT_STOP,
         Shadow (SPOT_LOAD (getStreamUrl demo_env (heap t' 0))
                   (duration (trackInfo (heap t' 0)) + word_of_int (offset (heap t' 0))) 30000),
         Shadow SPOT_PLAY]"
    by auto
  have o': "offset (heap t' 0) = - 30000" using t'(2) by simp
  have "index_h (heap t' 0) = 0" using t'(1) fpre by (auto simp: Let_def)
  then have u': "getStreamUrl demo_env (heap t' 0) = ''/stream/.flac''"
    by (simp add: demo_env_def)
  have m': "duration (trackInfo (heap t' 0)) + word_of_int (offset (heap t' 0)) = (170000 :: uint32)"
    using t'(3) o' fpre(8) by simp
  have m'': "flowMarkers t' = [170000]" using t'(6) o' fpre(8) by simp
  have B: "\<exists>s'. eventHandler demo_env (SEEK 30000) (projr seek_flow_demo) = Inr s'
         \<and> offset (heap s' 0) = - 30000
         \<and> streamers s' = [0] \<and> player s' = Some 0
         \<and> flowMarkers s' = [170000] \<and> lastPosition s' = 0
         \<and> trace s' = trace (projr seek_flow_demo)
              @ [StreamerFlush 0, Shadow SPOT_STOP,
                 Shadow (SPOT_LOAD ''/stream/.flac'' 170000 30000), Shadow SPOT_PLAY]"
    using t' o' u' m' m'' by auto
  from n n' pre fpre A B show ?thesis by blast
qed

text \<open>
  C6, as the specification states it (all flow markers discarded): in flow mode, with two
  markers held and the playing session at offset -5000, a \<open>SEEK\<close> to 30000 leaves the one
  marker 170000.
\<close>
theorem seek_handler_counterexample:
  "\<not> isl seek_flow_demo
   \<and> flow (projr seek_flow_demo) \<and> player (projr seek_flow_demo) = Some 0
   \<and> offset (heap (projr seek_flow_demo) 0) = - 5000
   \<and> flowMarkers (projr seek_flow_demo) = [380000, 200000]
   \<and> \<not> isl (eventHandler demo_env (SEEK 30000) (projr seek_flow_demo))
   \<and> flowMarkers (projr (eventHandler demo_env (SEEK 30000) (projr seek_flow_demo))) = [170000]
   \<and> flowMarkers (projr (eventHandler demo_env (SEEK 30000) (projr seek_flow_demo))) \<noteq> []"
  by (simp add: seek_flow_demo_def started_def runTask_linked_def ctor_def raw0_def
        demo_env_def trackA_def trackB_def writePCM_def trackHandler_def HTTPstreamer_new_def
        getMetadata_def shadowRequest_def spircDo_def Let_def)

subsection \<open>SHADOW_TIME: position and flow markers\<close>

lemma positionUpdates_append: "positionUpdates (xs @ ys) = positionUpdates xs @ positionUpdates ys"
  by (induction xs rule: positionUpdates.induct) auto

text \<open>
  C5. The specification has the predicted position kept as the stored one when the drift
  is small. The handler never stores the prediction. With a player, a protocol client and a
  prediction of 50000 ms: a report of 54000 (or of 55000, drift exactly 5000) is stored as
  it is and no position is sent to the protocol client; a report of 56000 is stored with
  its lowest bit set (56001) and 56000 minus the session's offset is sent; and when the
  prior position is 0 every report is stored with its lowest bit set and sent, minus the
  offset. The only other call the handler makes is the boundary notification of flow mode,
  sent after that when more than one marker is held, the stored position has reached the
  back marker and the latch \<open>notify\<close> is set.
\<close>
theorem time_resync:
  assumes "spirc s" and "player s = Some p"
    and "ucast (lastPosition s) + now - lastTimeStamp s = (50000 :: uint64)"
  shows "(lastPosition s \<noteq> 0 \<longrightarrow>
            lastPosition (notify e now (SHADOW_TIME 54000) s) = 54000
          \<and> trace (notify e now (SHADOW_TIME 54000) s)
              = trace s
                @ (if flow s \<and> 1 < length (flowMarkers s) \<and> last (flowMarkers s) \<le> 54000
                      \<and> notifyFlag s
                   then [Spirc notifyAudioReachedPlayback] else [])
          \<and> positionUpdates (trace (notify e now (SHADOW_TIME 54000) s)) = positionUpdates (trace s)
          \<and> lastPosition (notify e now (SHADOW_TIME 55000) s) = 55000
          \<and> trace (notify e now (SHADOW_TIME 55000) s)
              = trace s
                @ (if flow s \<and> 1 < length (flowMarkers s) \<and> last (flowMarkers s) \<le> 55000
                      \<and> notifyFlag s
                   then [Spirc notifyAudioReachedPlayback] else [])
          \<and> positionUpdates (trace (notify e now (SHADOW_TIME 55000) s)) = positionUpdates (trace s))
    \<and> lastPosition (notify e now (SHADOW_TIME 56000) s) = 56001
    \<and> trace (notify e now (SHADOW_TIME 56000) s)
        = trace s @ [Spirc (updatePositionMs (56000 - word_of_int (offset (heap s p))))]
          @ (if flow s \<and> 1 < length (flowMarkers s) \<and> last (flowMarkers s) \<le> 56001
                \<and> notifyFlag s
             then [Spirc notifyAudioReachedPlayback] else [])
    \<and> positionUpdates (trace (notify e now (SHADOW_TIME 56000) s))
        = positionUpdates (trace s) @ [56000 - word_of_int (offset (heap s p))]
    \<and> (\<forall>t pos. lastPosition s = 0 \<longrightarrow>
          lastPosition (notify e t (SHADOW_TIME pos) s) = pos OR 1
        \<and> trace (notify e t (SHADOW_TIME pos) s)
            = trace s @ [Spirc (updatePositionMs (pos - word_of_int (offset (heap s p))))]
              @ (if flow s \<and> 1 < length (flowMarkers s) \<and> last (flowMarkers s) \<le> pos OR 1
                    \<and> notifyFlag s
                 then [Spirc notifyAudioReachedPlayback] else [])
        \<and> positionUpdates (trace (notify e t (SHADOW_TIME pos) s))
            = positionUpdates (trace s) @ [pos - word_of_int (offset (heap s p))])"
  using assms by (auto simp: Let_def spircDo_def positionUpdates_append)

theorem time_resync_witness:
  "spirc time_demo \<and> player time_demo = Some 0 \<and> lastPosition time_demo = 40000
   \<and> ucast (lastPosition time_demo) + 11000 - lastTimeStamp time_demo = (50000 :: uint64)
   \<and> lastPosition (notify demo_env 11000 (SHADOW_TIME 54000) time_demo) = 54000
   \<and> trace (notify demo_env 11000 (SHADOW_TIME 54000) time_demo) = []
   \<and> lastPosition (notify demo_env 11000 (SHADOW_TIME 56000) time_demo) = 56001
   \<and> trace (notify demo_env 11000 (SHADOW_TIME 56000) time_demo)
       = [Spirc (updatePositionMs 56000)]
   \<and> lastPosition
        (notify demo_env 11000 (SHADOW_TIME 54000) (time_demo\<lparr>flowMarkers := [380000, 52000]\<rparr>))
       = 54000
   \<and> trace
        (notify demo_env 11000 (SHADOW_TIME 54000) (time_demo\<lparr>flowMarkers := [380000, 52000]\<rparr>))
       = [Spirc notifyAudioReachedPlayback]
   \<and> lastPosition (time_demo\<lparr>lastPosition := 0\<rparr>) = 0
   \<and> lastPosition (notify demo_env 51000 (SHADOW_TIME 50400) (time_demo\<lparr>lastPosition := 0\<rparr>))
       = 50401
   \<and> trace (notify demo_env 51000 (SHADOW_TIME 50400) (time_demo\<lparr>lastPosition := 0\<rparr>))
       = [Spirc (updatePositionMs 50400)]"
proof -
  have pre: "spirc time_demo" "player time_demo = Some 0" "lastPosition time_demo = 40000"
    "ucast (lastPosition time_demo) + 11000 - lastTimeStamp time_demo = (50000 :: uint64)"
    "trace time_demo = []" "offset (heap time_demo 0) = 0" "lastTimeStamp time_demo = 1000"
    "flow time_demo" "notifyFlag time_demo" "flowMarkers time_demo = [380000, 200000]"
    by (simp_all add: time_demo_def started_def runTask_linked_def ctor_def raw0_def
          HTTPstreamer_new_def)
  have a: "lastPosition (notify demo_env 11000 (SHADOW_TIME 54000) time_demo) = 54000
   \<and> trace (notify demo_env 11000 (SHADOW_TIME 54000) time_demo) = []
   \<and> lastPosition (notify demo_env 11000 (SHADOW_TIME 56000) time_demo) = 56001
   \<and> trace (notify demo_env 11000 (SHADOW_TIME 56000) time_demo)
       = [Spirc (updatePositionMs 56000)]"
    using time_resync [OF pre(1,2,4), where e = demo_env] pre
    by (simp del: notify.simps)
  have c: "lastPosition
        (notify demo_env 11000 (SHADOW_TIME 54000) (time_demo\<lparr>flowMarkers := [380000, 52000]\<rparr>))
       = 54000
   \<and> trace
        (notify demo_env 11000 (SHADOW_TIME 54000) (time_demo\<lparr>flowMarkers := [380000, 52000]\<rparr>))
       = [Spirc notifyAudioReachedPlayback]"
    using time_resync [where s = "time_demo\<lparr>flowMarkers := [380000, 52000]\<rparr>" and p = 0
        and now = 11000 and e = demo_env] pre
    by (simp del: notify.simps)
  have b: "lastPosition (notify demo_env 51000 (SHADOW_TIME 50400) (time_demo\<lparr>lastPosition := 0\<rparr>))
       = 50401
   \<and> trace (notify demo_env 51000 (SHADOW_TIME 50400) (time_demo\<lparr>lastPosition := 0\<rparr>))
       = [Spirc (updatePositionMs 50400)]"
  proof -
    have h: "spirc (time_demo\<lparr>lastPosition := 0\<rparr>)"
      "player (time_demo\<lparr>lastPosition := 0\<rparr>) = Some 0"
      "ucast (lastPosition (time_demo\<lparr>lastPosition := 0\<rparr>)) + 51000
         - lastTimeStamp (time_demo\<lparr>lastPosition := 0\<rparr>) = (50000 :: uint64)"
      and z: "lastPosition (time_demo\<lparr>lastPosition := 0\<rparr>) = 0"
      and o: "trace (time_demo\<lparr>lastPosition := 0\<rparr>) = []"
        "offset (heap (time_demo\<lparr>lastPosition := 0\<rparr>) 0) = 0"
        "flowMarkers (time_demo\<lparr>lastPosition := 0\<rparr>) = [380000, 200000]"
      using pre by simp_all
    from time_resync [OF h, where e = demo_env] z
    have "lastPosition (notify demo_env 51000 (SHADOW_TIME 50400) (time_demo\<lparr>lastPosition := 0\<rparr>))
        = 50400 OR 1
      \<and> trace (notify demo_env 51000 (SHADOW_TIME 50400) (time_demo\<lparr>lastPosition := 0\<rparr>))
        = trace (time_demo\<lparr>lastPosition := 0\<rparr>)
          @ [Spirc (updatePositionMs
                      (50400 - word_of_int (offset (heap (time_demo\<lparr>lastPosition := 0\<rparr>) 0))))]
          @ (if flow (time_demo\<lparr>lastPosition := 0\<rparr>)
                \<and> 1 < length (flowMarkers (time_demo\<lparr>lastPosition := 0\<rparr>))
                \<and> last (flowMarkers (time_demo\<lparr>lastPosition := 0\<rparr>)) \<le> 50400 OR 1
                \<and> notifyFlag (time_demo\<lparr>lastPosition := 0\<rparr>)
             then [Spirc notifyAudioReachedPlayback] else [])"
      by blast
    then show ?thesis unfolding o by simp
  qed
  from a b c pre show ?thesis by (simp del: notify.simps)
qed

text \<open>
  C5, as the specification states it: prior position 40000 stamped at 1000, clock 11000,
  so the prediction is 50000; after a report of 54000 the stored position is 54000, not
  50000.
\<close>
theorem time_resync_counterexample:
  "spirc time_demo \<and> player time_demo = Some 0 \<and> lastPosition time_demo = 40000
   \<and> ucast (lastPosition time_demo) + 11000 - lastTimeStamp time_demo = (50000 :: uint64)
   \<and> lastPosition (notify demo_env 11000 (SHADOW_TIME 54000) time_demo) = 54000
   \<and> lastPosition (notify demo_env 11000 (SHADOW_TIME 54000) time_demo) \<noteq> 50000"
  by (simp add: time_demo_def started_def runTask_linked_def ctor_def raw0_def
        HTTPstreamer_new_def spircDo_def Let_def)

text \<open>
  One \<open>SHADOW_TIME\<close> either leaves the markers, the latch and the number of boundary
  notifications as they are, or pops the back marker.
\<close>
lemma notify_TIME_step:
  "(flowMarkers (notify e now (SHADOW_TIME pos) s) = flowMarkers s
      \<and> notifyFlag (notify e now (SHADOW_TIME pos) s) = notifyFlag s
      \<and> count_list (trace (notify e now (SHADOW_TIME pos) s)) (Spirc notifyAudioReachedPlayback)
          = count_list (trace s) (Spirc notifyAudioReachedPlayback))
   \<or> (flow s \<and> 1 < length (flowMarkers s)
      \<and> last (flowMarkers s) \<le> lastPosition (notify e now (SHADOW_TIME pos) s)
      \<and> flowMarkers (notify e now (SHADOW_TIME pos) s) = butlast (flowMarkers s)
      \<and> notifyFlag (notify e now (SHADOW_TIME pos) s)
      \<and> count_list (trace (notify e now (SHADOW_TIME pos) s)) (Spirc notifyAudioReachedPlayback)
          = count_list (trace s) (Spirc notifyAudioReachedPlayback) + (if notifyFlag s then 1 else 0))"
  by (auto simp: Let_def spircDo_def split: option.splits)

lemma notify_times_markers:
  "notifyFlag s \<Longrightarrow>
     notifyFlag (notify_times e ts s)
   \<and> length (flowMarkers (notify_times e ts s)) \<le> length (flowMarkers s)
   \<and> flowMarkers (notify_times e ts s)
       = take (length (flowMarkers (notify_times e ts s))) (flowMarkers s)
   \<and> (flowMarkers s \<noteq> [] \<longrightarrow> flowMarkers (notify_times e ts s) \<noteq> [])
   \<and> count_list (trace (notify_times e ts s)) (Spirc notifyAudioReachedPlayback)
       = count_list (trace s) (Spirc notifyAudioReachedPlayback)
         + (length (flowMarkers s) - length (flowMarkers (notify_times e ts s)))"
proof (induction e ts s rule: notify_times.induct)
  case (1 e s)
  then show ?case by simp
next
  case (2 e now position ts s)
  let ?s1 = "notify e now (SHADOW_TIME position) s"
  let ?s2 = "notify_times e ts ?s1"
  from notify_TIME_step [of e now position s] "2.prems"
  have st: "notifyFlag ?s1"
    and alt: "(flowMarkers ?s1 = flowMarkers s
        \<and> count_list (trace ?s1) (Spirc notifyAudioReachedPlayback)
            = count_list (trace s) (Spirc notifyAudioReachedPlayback))
      \<or> (1 < length (flowMarkers s) \<and> flowMarkers ?s1 = butlast (flowMarkers s)
        \<and> count_list (trace ?s1) (Spirc notifyAudioReachedPlayback)
            = count_list (trace s) (Spirc notifyAudioReachedPlayback) + 1)"
    by auto
  note ih = "2.IH" [OF st]
  from alt show ?case
  proof
    assume a: "flowMarkers ?s1 = flowMarkers s
        \<and> count_list (trace ?s1) (Spirc notifyAudioReachedPlayback)
            = count_list (trace s) (Spirc notifyAudioReachedPlayback)"
    with ih show ?thesis by simp
  next
    assume b: "1 < length (flowMarkers s) \<and> flowMarkers ?s1 = butlast (flowMarkers s)
        \<and> count_list (trace ?s1) (Spirc notifyAudioReachedPlayback)
            = count_list (trace s) (Spirc notifyAudioReachedPlayback) + 1"
    have len: "length (flowMarkers ?s1) = length (flowMarkers s) - 1" using b by simp
    have le: "length (flowMarkers ?s2) \<le> length (flowMarkers s) - 1" using ih len by simp
    have "flowMarkers ?s2 = take (length (flowMarkers ?s2)) (butlast (flowMarkers s))"
      using ih b by simp
    also have "\<dots> = take (length (flowMarkers ?s2)) (flowMarkers s)"
      using le by (simp add: butlast_conv_take)
    finally have tk: "flowMarkers ?s2 = take (length (flowMarkers ?s2)) (flowMarkers s)" .
    have ne: "flowMarkers ?s1 \<noteq> []" using b len by (metis length_0_conv less_numeral_extra(3) zero_less_diff)
    show ?thesis using ih b le tk ne len by auto
  qed
qed

text \<open>
  Over all calls, the marker sequence stays, loses its back (only in \<open>SHADOW_TIME\<close>),
  gains a front, or is reset to at most one marker (\<open>PLAYBACK_START\<close>, \<open>SEEK\<close>, a loop).
\<close>
lemma trackHandler_markers:
  "trackHandler e key s = Inr s' \<Longrightarrow>
     flowMarkers s' = flowMarkers s \<or> (\<exists>m. flowMarkers s' = m # flowMarkers s)
     \<or> length (flowMarkers s') \<le> 1"
  by (auto simp: trackHandler_def Let_def shadowRequest_def split: list.splits if_splits option.splits sum.splits)

lemma writePCM_markers:
  assumes "writePCM e vp this data key s = Inr (n, s')"
  shows "flowMarkers s' = flowMarkers s \<or> (\<exists>m. flowMarkers s' = m # flowMarkers s)
     \<or> length (flowMarkers s') \<le> 1"
proof (cases "isRunning s \<and> \<not> isPaused s \<and> this \<in> vp \<and> key \<noteq> streamTrackUnique s
              \<and> length (streamers s) \<le> 1")
  case True
  then obtain s1 where t: "trackHandler e key (s\<lparr>flushed := False, streamTrackUnique := key\<rparr>) = Inr s1"
    and s': "s' = s1\<lparr>heap := (heap s1)(hd (streamers s1) := snd (feedPCMFrames e (heap s1 (hd (streamers s1))) data))\<rparr>"
    using writePCM_new_key [of s this vp key e data n s'] assms(1) by blast
  from trackHandler_markers [OF t] s' show ?thesis by simp
next
  case False
  then have "flowMarkers s' = flowMarkers s"
    using assms(1) by (auto simp: writePCM_def Let_def split: if_splits list.splits)
  then show ?thesis by simp
qed

lemma eventHandler_markers:
  "eventHandler e ev s = Inr s' \<Longrightarrow>
     flowMarkers s' = flowMarkers s \<or> length (flowMarkers s') \<le> 1"
  by (cases ev)
    (auto simp: Let_def shadowRequest_def spircDo_def disconnect_def
          split: option.splits if_splits list.splits)

lemma notify_markers:
  "flowMarkers (notify e now ev s) = flowMarkers s
   \<or> ((\<exists>pos. ev = SHADOW_TIME pos) \<and> flowMarkers (notify e now ev s) = butlast (flowMarkers s))"
  by (cases ev)
    (auto simp: Let_def shadowRequest_def spircDo_def disconnect_def
          split: option.splits if_splits list.splits)

lemma step_markers:
  assumes "step e vp this i s = Inr s'"
  shows "flowMarkers s' = flowMarkers s
     \<or> ((\<exists>now pos. i = Notify now (SHADOW_TIME pos)) \<and> flowMarkers s' = butlast (flowMarkers s))
     \<or> (\<exists>m. flowMarkers s' = m # flowMarkers s)
     \<or> length (flowMarkers s') \<le> 1"
proof (cases i)
  case (Deliver d key)
  with assms obtain n where "writePCM e vp this d key s = Inr (n, s')"
    by (auto split: sum.splits)
  from writePCM_markers [OF this] show ?thesis by blast
next
  case (Ev ev)
  with assms eventHandler_markers [of e ev s s'] show ?thesis by auto
next
  case (Notify now ev)
  with assms notify_markers [of e now ev s] show ?thesis by auto
qed

text \<open>
  C7. With the latch \<open>notify\<close> set. One \<open>SHADOW_TIME\<close> changes the markers only by popping
  the back one, only in flow mode with more than one marker and the stored position at or
  past that marker, and the pop sends exactly one \<open>notifyAudioReachedPlayback\<close>. Over any
  run of \<open>SHADOW_TIME\<close> notifications the markers left are a front part of the markers
  before, and the number of notifications sent is the number of markers gone.
\<close>
theorem flow_markers_pop:
  assumes "notifyFlag s"
  shows "(\<forall>now pos.
            flowMarkers (notify e now (SHADOW_TIME pos) s) = flowMarkers s
          \<or> (flow s \<and> 1 < length (flowMarkers s)
              \<and> last (flowMarkers s) \<le> lastPosition (notify e now (SHADOW_TIME pos) s)
              \<and> flowMarkers (notify e now (SHADOW_TIME pos) s) = butlast (flowMarkers s)
              \<and> count_list (trace (notify e now (SHADOW_TIME pos) s))
                   (Spirc notifyAudioReachedPlayback)
                 = count_list (trace s) (Spirc notifyAudioReachedPlayback) + 1))
    \<and> length (flowMarkers (notify_times e ts s)) \<le> length (flowMarkers s)
    \<and> flowMarkers (notify_times e ts s)
        = take (length (flowMarkers (notify_times e ts s))) (flowMarkers s)
    \<and> count_list (trace (notify_times e ts s)) (Spirc notifyAudioReachedPlayback)
        = count_list (trace s) (Spirc notifyAudioReachedPlayback)
          + (length (flowMarkers s) - length (flowMarkers (notify_times e ts s)))"
proof -
  have one: "\<forall>now pos.
            flowMarkers (notify e now (SHADOW_TIME pos) s) = flowMarkers s
          \<or> (flow s \<and> 1 < length (flowMarkers s)
              \<and> last (flowMarkers s) \<le> lastPosition (notify e now (SHADOW_TIME pos) s)
              \<and> flowMarkers (notify e now (SHADOW_TIME pos) s) = butlast (flowMarkers s)
              \<and> count_list (trace (notify e now (SHADOW_TIME pos) s))
                   (Spirc notifyAudioReachedPlayback)
                 = count_list (trace s) (Spirc notifyAudioReachedPlayback) + 1)"
  proof (intro allI)
    fix now pos
    from notify_TIME_step [of e now pos s] assms
    show "flowMarkers (notify e now (SHADOW_TIME pos) s) = flowMarkers s
          \<or> (flow s \<and> 1 < length (flowMarkers s)
              \<and> last (flowMarkers s) \<le> lastPosition (notify e now (SHADOW_TIME pos) s)
              \<and> flowMarkers (notify e now (SHADOW_TIME pos) s) = butlast (flowMarkers s)
              \<and> count_list (trace (notify e now (SHADOW_TIME pos) s))
                   (Spirc notifyAudioReachedPlayback)
                 = count_list (trace s) (Spirc notifyAudioReachedPlayback) + 1)"
      by auto
  qed
  from one notify_times_markers [OF assms, of e ts] show ?thesis by blast
qed

theorem flow_markers_pop_witness:
  "notifyFlag time_demo \<and> flowMarkers time_demo = [380000, 200000]
   \<and> flowMarkers (notify_times demo_env [(11000, 54000), (167000, 200000), (168000, 201000)] time_demo)
       = [380000]
   \<and> count_list
        (trace (notify_times demo_env [(11000, 54000), (167000, 200000), (168000, 201000)] time_demo))
        (Spirc notifyAudioReachedPlayback) = 1"
proof -
  have pre: "notifyFlag time_demo" "flowMarkers time_demo = [380000, 200000]" "trace time_demo = []"
    by (simp_all add: time_demo_def started_def runTask_linked_def ctor_def raw0_def)
  have r: "flowMarkers (notify_times demo_env [(11000, 54000), (167000, 200000), (168000, 201000)] time_demo)
       = [380000]"
    by (simp add: time_demo_def started_def runTask_linked_def ctor_def raw0_def
        HTTPstreamer_new_def spircDo_def Let_def)
  from flow_markers_pop [OF pre(1), where e = demo_env
      and ts = "[(11000, 54000), (167000, 200000), (168000, 201000)]"]
  show ?thesis using pre r by simp
qed

subsection \<open>The queue holds at most two sessions\<close>

lemma popUntil_length: "length (popUntil m xs) \<le> length xs"
  by (induction xs) auto

lemma notify_queue: "length (streamers (notify e now ev s)) \<le> length (streamers s)"
proof (cases ev)
  case (SHADOW_TRACK url)
  have "length (rev (popUntil (\<lambda>a. str_find url (getStreamUrl e (heap s a))) (rev (streamers s))))
          \<le> length (streamers s)"
    using popUntil_length [of _ "rev (streamers s)"] by simp
  then show ?thesis using SHADOW_TRACK
    by (auto simp: Let_def spircDo_def split: option.splits list.splits)
qed (auto simp: Let_def spircDo_def disconnect_def shadowRequest_def split: option.splits)

lemma eventHandler_queue:
  "eventHandler e ev s = Inr s' \<Longrightarrow> length (streamers s) \<le> 2 \<Longrightarrow> length (streamers s') \<le> 2"
  by (cases ev)
    (auto simp: Let_def shadowRequest_def spircDo_def disconnect_def
          split: option.splits if_splits list.splits)

lemma writePCM_queue:
  assumes "writePCM e vp this data key s = Inr (n, s')" and "length (streamers s) \<le> 2"
  shows "length (streamers s') \<le> 2"
proof (cases "isRunning s \<and> \<not> isPaused s \<and> this \<in> vp \<and> key \<noteq> streamTrackUnique s
              \<and> length (streamers s) \<le> 1")
  case True
  then obtain s1 where t: "trackHandler e key (s\<lparr>flushed := False, streamTrackUnique := key\<rparr>) = Inr s1"
    and s': "s' = s1\<lparr>heap := (heap s1)(hd (streamers s1) := snd (feedPCMFrames e (heap s1 (hd (streamers s1))) data))\<rparr>"
    using writePCM_new_key [of s this vp key e data n s'] assms(1) by blast
  from trackHandler_streamers [OF t] True have "length (streamers s1) \<le> 2"
    by (auto split: if_splits)
  then show ?thesis using s' by simp
next
  case False
  then have "streamers s' = streamers s"
    using assms(1) by (auto simp: writePCM_def Let_def split: if_splits list.splits)
  then show ?thesis using assms(2) by simp
qed

lemma step_queue:
  "step e vp this i s = Inr s' \<Longrightarrow> length (streamers s) \<le> 2 \<Longrightarrow> length (streamers s') \<le> 2"
proof (cases i)
  case (Deliver d key)
  assume "step e vp this i s = Inr s'" "length (streamers s) \<le> 2"
  then show ?thesis using Deliver writePCM_queue
    by (cases "writePCM e vp this d key s") (auto split: sum.splits)
next
  case (Ev ev)
  assume "step e vp this i s = Inr s'" "length (streamers s) \<le> 2"
  then show ?thesis using Ev eventHandler_queue by auto
next
  case (Notify now ev)
  assume "step e vp this i s = Inr s'" "length (streamers s) \<le> 2"
  then show ?thesis using Notify notify_queue [of e now ev s] by auto
qed

lemma run_queue:
  "run e vp this ins s = Inr s' \<Longrightarrow> length (streamers s) \<le> 2 \<Longrightarrow> length (streamers s') \<le> 2"
proof (induction ins arbitrary: s)
  case Nil
  then show ?case by simp
next
  case (Cons i ins)
  then obtain s1 where s1: "step e vp this i s = Inr s1" "run e vp this ins s1 = Inr s'"
    by (auto split: sum.splits)
  from step_queue [OF s1(1) Cons.prems(2)] Cons.IH [OF s1(2)] show ?case by simp
qed

text \<open>
  C4. Over every sequence of deliveries, protocol events and renderer notifications that
  starts with at most two sessions queued (the constructor starts with none), the queue
  holds at most two sessions after every call. A delivery under a new key that finds two
  sessions queued returns 0 and changes nothing: no session is made.
\<close>
theorem queue_bound:
  "(length (streamers s) \<le> 2 \<and> run e vp this ins s = Inr s' \<longrightarrow> length (streamers s') \<le> 2)
   \<and> (run e vp this ins (ctor fl cl m) = Inr s'' \<longrightarrow> length (streamers s'') \<le> 2)
   \<and> (isRunning s \<and> \<not> isPaused s \<and> this \<in> vp \<and> key \<noteq> streamTrackUnique s
        \<and> length (streamers s) = 2 \<longrightarrow>
      writePCM e vp this data key s = Inr (0, s))"
proof (intro conjI impI)
  assume "length (streamers s) \<le> 2 \<and> run e vp this ins s = Inr s'"
  then show "length (streamers s') \<le> 2" using run_queue by blast
next
  assume "run e vp this ins (ctor fl cl m) = Inr s''"
  then show "length (streamers s'') \<le> 2"
    using run_queue [of e vp this ins "ctor fl cl m" s''] by (simp add: ctor_def)
next
  assume "isRunning s \<and> \<not> isPaused s \<and> this \<in> vp \<and> key \<noteq> streamTrackUnique s
        \<and> length (streamers s) = 2"
  then show "writePCM e vp this data key s = Inr (0, s)"
    by (auto simp: writePCM_def)
qed


theorem queue_bound_witness:
  "length (streamers (started False)) \<le> 2
   \<and> (\<exists>s'. run demo_env {7} 7 [Deliver [1] ''kA'', Deliver [2] ''kB''] (started False) = Inr s'
         \<and> length (streamers s') \<le> 2 \<and> length (streamers s') = 2
         \<and> isRunning s' \<and> \<not> isPaused s' \<and> (7::nat) \<in> {7} \<and> ''kC'' \<noteq> streamTrackUnique s'
         \<and> writePCM demo_env {7} 7 [3] ''kC'' s' = Inr (0, s'))"
proof -
  have "\<exists>s'. run demo_env {7} 7 [Deliver [1] ''kA'', Deliver [2] ''kB''] (started False) = Inr s'
         \<and> length (streamers s') = 2
         \<and> isRunning s' \<and> \<not> isPaused s' \<and> streamTrackUnique s' = ''kB''"
    by (simp add: started_def runTask_linked_def ctor_def raw0_def demo_env_def writePCM_def
          trackHandler_def HTTPstreamer_new_def getMetadata_def shadowRequest_def Let_def)
  then obtain s' where s':
      "run demo_env {7} 7 [Deliver [1] ''kA'', Deliver [2] ''kB''] (started False) = Inr s'"
      "length (streamers s') = 2" "isRunning s'" "\<not> isPaused s'" "streamTrackUnique s' = ''kB''"
    by blast
  have l0: "length (streamers (started False)) \<le> 2"
    by (simp add: started_def runTask_linked_def ctor_def)
  from queue_bound [where s = "started False" and s' = s' and e = demo_env and vp = "{7}"
      and this = 7 and ins = "[Deliver [1] ''kA'', Deliver [2] ''kB'']"] l0 s'(1)
  have le: "length (streamers s') \<le> 2" by blast
  from queue_bound [where s = s' and this = 7 and vp = "{7}" and key = "''kC''" and e = demo_env
      and data = "[3]"] s'
  have "writePCM demo_env {7} 7 [3] ''kC'' s' = Inr (0, s')" by simp
  with s' l0 le show ?thesis by auto
qed

subsection \<open>Flow mode: loop detection\<close>

text \<open>
  The first track of a flow session gets its marker, but it is not put in the played set:
  only the branch for later tracks (line 335) inserts.
\<close>
lemma trackHandler_first_track:
  "streamers s = [] \<Longrightarrow> flow s \<Longrightarrow> trackHandler e key s = Inr s' \<Longrightarrow>
     flowPlayedTracks s' = flowPlayedTracks s
   \<and> flowMarkers s' = duration (getTrackInfo e key) # flowMarkers s"
  by (auto simp: trackHandler_def Let_def shadowRequest_def getMetadata_def HTTPstreamer_new_def
        split: if_splits)

text \<open>
  C1. Flow mode, tracks A (200000 ms), B (180000 ms), A. The third delivery finds only B in
  the played set, so it is not taken as a loop: the markers end as 580000, 380000, 200000
  and the played set as A and B, where a detected loop gives the marker 200000 alone and
  the played set A alone.
\<close>
theorem loop_not_detected:
  "\<not> isl loop_demo
   \<and> flowMarkers (projr loop_demo) = [580000, 380000, 200000]
   \<and> flowPlayedTracks (projr loop_demo) = {''A'', ''B''}"
  by (simp add: loop_demo_def started_def runTask_linked_def ctor_def raw0_def demo_env_def
        trackA_def trackB_def writePCM_def trackHandler_def HTTPstreamer_new_def getMetadata_def
        shadowRequest_def spircDo_def Let_def insert_commute)

end
